theory Spec2Isabelle
  imports Main
begin

section \<open>The RAG front end of kivy-app.py\<close>

text \<open>
  The program is one Python module: a search client \<open>elastic_search\<close>, a prompt builder
  \<open>build_prompt\<close>, a completion client \<open>llm\<close>, the orchestrator \<open>rag\<close> and the
  event handlers of the class \<open>MyTextInputApp\<close>.

  Python's \<open>str\<close> is modelled by \<open>string\<close>, one \<open>char\<close> for one code point, so the
  model covers the strings whose code points are below 256. Exceptions are values of the
  type \<open>error\<close>, and a function that may raise returns \<open>error + 'a\<close>.
\<close>

subsection \<open>Exceptions\<close>

datatype error =
    KeyError string
  | IndexError
  | ValueError
  | AttributeError string
  | ServiceError string

subsection \<open>The string methods the module calls\<close>

text \<open>
  \<open>str.strip()\<close> without an argument removes leading and trailing whitespace, the
  characters for which \<open>str.isspace\<close> holds. Below code point 256 these are U+0009 to
  U+000D, U+001C to U+0020, U+0085 and U+00A0.
\<close>

definition is_space :: "char \<Rightarrow> bool" where
  "is_space c =
     (let n = (of_char c :: nat)
      in (9 \<le> n \<and> n \<le> 13) \<or> (28 \<le> n \<and> n \<le> 32) \<or> n = 133 \<or> n = 160)"

definition lstrip :: "string \<Rightarrow> string" where
  "lstrip s = dropWhile is_space s"

definition rstrip :: "string \<Rightarrow> string" where
  "rstrip s = rev (dropWhile is_space (rev s))"

definition strip :: "string \<Rightarrow> string" where
  "strip s = rstrip (lstrip s)"

text \<open>
  \<open>str.format\<close> with keyword arguments, for templates whose replacement fields are plain
  names in braces, as the fields \<open>{question}\<close> and \<open>{context}\<close> of the module's template
  are. The scanner copies literal text, collects a field name between \<open>{\<close> and \<open>}\<close>, and
  inserts the argument of that name; the inserted text is not scanned again. A name with
  no argument raises KeyError, a brace without its partner ValueError. Brace escapes,
  conversions and format specifications do not occur in the template and are not
  modelled.
\<close>

fun format_scan :: "(string \<times> string) list \<Rightarrow> string option \<Rightarrow> string \<Rightarrow> error + string" where
  "format_scan kw None [] = Inr []"
| "format_scan kw (Some name) [] = Inl ValueError"
| "format_scan kw None (c # cs) =
     (if c = CHR ''{'' then format_scan kw (Some []) cs
      else if c = CHR ''}'' then Inl ValueError
      else (case format_scan kw None cs of Inl e \<Rightarrow> Inl e | Inr r \<Rightarrow> Inr (c # r)))"
| "format_scan kw (Some name) (c # cs) =
     (if c = CHR ''}'' then
        (case map_of kw name of
           None \<Rightarrow> Inl (KeyError name)
         | Some v \<Rightarrow> (case format_scan kw None cs of Inl e \<Rightarrow> Inl e | Inr r \<Rightarrow> Inr (v @ r)))
      else format_scan kw (Some (name @ [c])) cs)"

definition format_str :: "string \<Rightarrow> (string \<times> string) list \<Rightarrow> error + string" where
  "format_str template kw = format_scan kw None template"

subsection \<open>Documents and the prompt builder\<close>

text \<open>
  A document is the \<open>_source\<close> dictionary of a search hit. \<open>d[k]\<close> raises KeyError when
  the key is absent.
\<close>

type_synonym doc = "string \<rightharpoonup> string"

definition getitem :: "doc \<Rightarrow> string \<Rightarrow> error + string" where
  "getitem d k = (case d k of None \<Rightarrow> Inl (KeyError k) | Some v \<Rightarrow> Inr v)"

text \<open>The triple-quoted literal bound to \<open>prompt_template\<close>, before \<open>.strip()\<close>.\<close>

definition prompt_template_literal :: string where
  "prompt_template_literal =
     ''\<newline>    You're a course teaching assistant. Answer the QUESTION based on the CONTEXT from the FAQ database.\<newline>    Use only the facts from the CONTEXT when answering the QUESTION.\<newline>\<newline>    QUESTION: {question}\<newline>\<newline>    CONTEXT: \<newline>    {context}\<newline>    ''"

definition prompt_template :: string where
  "prompt_template = strip prompt_template_literal"

text \<open>
  The f-string of the loop body: the three subscripts are evaluated from left to right,
  so the first missing key is the one reported.
\<close>

definition doc_block :: "doc \<Rightarrow> error + string" where
  "doc_block d =
     (case getitem d ''section'' of Inl e \<Rightarrow> Inl e | Inr s \<Rightarrow>
      (case getitem d ''question'' of Inl e \<Rightarrow> Inl e | Inr qn \<Rightarrow>
       (case getitem d ''text'' of Inl e \<Rightarrow> Inl e | Inr t \<Rightarrow>
         Inr (''section: '' @ s @ ''\<newline>question: '' @ qn @ ''\<newline>answer: '' @ t
              @ ''\<newline>\<newline>''))))"

text \<open>The loop \<open>for doc in search_results: context = context + ...\<close>.\<close>

fun build_context :: "string \<Rightarrow> doc list \<Rightarrow> error + string" where
  "build_context context [] = Inr context"
| "build_context context (d # ds) =
     (case doc_block d of Inl e \<Rightarrow> Inl e | Inr b \<Rightarrow> build_context (context @ b) ds)"

definition build_prompt :: "string \<Rightarrow> doc list \<Rightarrow> error + string" where
  "build_prompt query search_results =
     (case build_context [] search_results of
        Inl e \<Rightarrow> Inl e
      | Inr context \<Rightarrow>
          (case format_str prompt_template [(''question'', query), (''context'', context)] of
             Inl e \<Rightarrow> Inl e
           | Inr prompt \<Rightarrow> Inr (strip prompt)))"

text \<open>
  The literal text of the stripped template around its two fields, and the block that
  the loop body appends for a document with all three keys; both serve to state what
  \<open>build_prompt\<close> returns.
\<close>

definition prompt_head :: string where
  "prompt_head =
     ''You're a course teaching assistant. Answer the QUESTION based on the CONTEXT from the FAQ database.\<newline>    Use only the facts from the CONTEXT when answering the QUESTION.\<newline>\<newline>    QUESTION: ''"

definition prompt_mid :: string where
  "prompt_mid = ''\<newline>\<newline>    CONTEXT: \<newline>    ''"

definition has_keys :: "doc \<Rightarrow> bool" where
  "has_keys d = (d ''section'' \<noteq> None \<and> d ''question'' \<noteq> None \<and> d ''text'' \<noteq> None)"

definition rendered_block :: "doc \<Rightarrow> string" where
  "rendered_block d =
     ''section: '' @ the (d ''section'') @ ''\<newline>question: '' @ the (d ''question'')
       @ ''\<newline>answer: '' @ the (d ''text'') @ ''\<newline>\<newline>''"

text \<open>Python's \<open>sub in s\<close> on strings: \<open>sub\<close> occurs in \<open>s\<close> as a contiguous run.\<close>

fun starts_with :: "string \<Rightarrow> string \<Rightarrow> bool" where
  "starts_with s [] = True"
| "starts_with [] (c # cs) = False"
| "starts_with (x # xs) (c # cs) = (x = c \<and> starts_with xs cs)"

fun contains :: "string \<Rightarrow> string \<Rightarrow> bool" where
  "contains [] sub = (sub = [])"
| "contains (c # s) sub = (starts_with (c # s) sub \<or> contains s sub)"

text \<open>A string whose last character is whitespace: \<open>strip\<close> shortens it at the end.\<close>

definition ends_with_space :: "string \<Rightarrow> bool" where
  "ends_with_space s = (s \<noteq> [] \<and> is_space (last s))"

subsection \<open>The search request\<close>

text \<open>
  The request body is a nested dictionary of strings, integers and lists; \<open>jpath\<close> reads
  the value under a path of keys and \<open>jupdate\<close> replaces it.
\<close>

datatype json = JStr string | JInt int | JList "json list" | JObj "(string \<times> json) list"

fun jget :: "json \<Rightarrow> string \<Rightarrow> json option" where
  "jget (JObj kvs) k = map_of kvs k"
| "jget _ k = None"

fun jpath :: "json \<Rightarrow> string list \<Rightarrow> json option" where
  "jpath j [] = Some j"
| "jpath j (k # ks) = (case jget j k of None \<Rightarrow> None | Some j' \<Rightarrow> jpath j' ks)"

fun jupdate :: "string list \<Rightarrow> json \<Rightarrow> json \<Rightarrow> json"
  and jupdate_fields :: "string \<Rightarrow> string list \<Rightarrow> json \<Rightarrow> (string \<times> json) list \<Rightarrow> (string \<times> json) list" where
  "jupdate [] v j = v"
| "jupdate (k # ks) v (JObj kvs) = JObj (jupdate_fields k ks v kvs)"
| "jupdate (k # ks) v j = j"
| "jupdate_fields k ks v [] = []"
| "jupdate_fields k ks v ((k', j') # kvs) =
     (if k' = k then (k', jupdate ks v j') else (k', j')) # jupdate_fields k ks v kvs"

definition search_query :: "string \<Rightarrow> json" where
  "search_query query =
     JObj [
       (''size'', JInt 5),
       (''query'', JObj [
         (''bool'', JObj [
           (''must'', JObj [
             (''multi_match'', JObj [
               (''query'', JStr query),
               (''fields'', JList [JStr ''question^3'', JStr ''text'', JStr ''section'']),
               (''type'', JStr ''best_fields'')])]),
           (''filter'', JObj [
             (''term'', JObj [
               (''course'', JStr ''data-engineering-zoomcamp'')])])])])]"

definition default_index :: string where
  "default_index = ''course-questions-docker''"

subsection \<open>The services and the world\<close>

text \<open>
  The two clients are module globals bound to services outside the repository. A
  service is a parameter: a function from the request to its response or to the
  exception the client raises. The world records what the program did to its
  surroundings: the lines printed and the requests sent.
\<close>

record hit =
  source :: doc

record es_response =
  hits :: "hit list"

record chat_message =
  role :: string
  content :: string

record choice =
  message :: chat_message

record completion =
  choices :: "choice list"

type_synonym es_service = "string \<Rightarrow> json \<Rightarrow> error + es_response"

type_synonym chat_service = "string \<Rightarrow> chat_message list \<Rightarrow> error + completion"

record world =
  console :: "string list"
  es_calls :: "(string \<times> json) list"
  chat_calls :: "(string \<times> chat_message list) list"

definition print :: "string \<Rightarrow> world \<Rightarrow> world" where
  "print line w = w\<lparr>console := console w @ [line]\<rparr>"

subsection \<open>The search client\<close>

text \<open>The loop \<open>for hit in response_es['hits']['hits']: result_docs.append(hit['_source'])\<close>.\<close>

fun collect_sources :: "doc list \<Rightarrow> hit list \<Rightarrow> doc list" where
  "collect_sources result_docs [] = result_docs"
| "collect_sources result_docs (h # hs) = collect_sources (result_docs @ [source h]) hs"

definition elastic_search ::
    "es_service \<Rightarrow> string \<Rightarrow> string \<Rightarrow> world \<Rightarrow> world \<times> (error + doc list)" where
  "elastic_search es query index_name w =
     (let body = search_query query;
          w1 = w\<lparr>es_calls := es_calls w @ [(index_name, body)]\<rparr>
      in case es index_name body of
           Inl e \<Rightarrow> (w1, Inl e)
         | Inr response_es \<Rightarrow> (w1, Inr (collect_sources [] (hits response_es))))"

subsection \<open>The completion client\<close>

text \<open>\<open>response.choices[0]\<close> raises IndexError on an empty list of choices.\<close>

definition llm :: "chat_service \<Rightarrow> string \<Rightarrow> world \<Rightarrow> world \<times> (error + string)" where
  "llm chat prompt w =
     (let messages = [\<lparr>role = ''user'', content = prompt\<rparr>];
          w1 = w\<lparr>chat_calls := chat_calls w @ [(''phi3'', messages)]\<rparr>
      in case chat ''phi3'' messages of
           Inl e \<Rightarrow> (w1, Inl e)
         | Inr response \<Rightarrow>
             (case choices response of
                [] \<Rightarrow> (w1, Inl IndexError)
              | c # _ \<Rightarrow> (w1, Inr (content (message c)))))"

subsection \<open>The orchestrator\<close>

definition rag :: "es_service \<Rightarrow> chat_service \<Rightarrow> string \<Rightarrow> world \<Rightarrow> world \<times> (error + string)" where
  "rag es chat query w =
     (let w1 = print ''--------------IDENTIFYING RELATED CONTENT USING ELASTIC SEARCH-------------------'' w
      in case elastic_search es query default_index w1 of
           (w2, Inl e) \<Rightarrow> (w2, Inl e)
         | (w2, Inr search_results) \<Rightarrow>
             (let w3 = print ''--------------BUILDING PROMPT-------------------'' w2
              in case build_prompt query search_results of
                   Inl e \<Rightarrow> (w3, Inl e)
                 | Inr prompt \<Rightarrow>
                     (let w4 = print ''--------------CALLING THE LLM-------------------'' w3
                      in case llm chat prompt w4 of
                           (w5, Inl e) \<Rightarrow> (w5, Inl e)
                         | (w5, Inr answer) \<Rightarrow>
                             (print ''--------------RETURNING THE ANSWER-------------------'' w5,
                              Inr answer))))"

subsection \<open>The handlers of MyTextInputApp\<close>

text \<open>
  The application object holds the three Kivy properties; \<open>scheduled\<close> is the queue of
  the clock, the delays in seconds of the callbacks that \<open>Clock.schedule_once\<close> has
  registered and not yet run (each of them calls \<open>finish_processing\<close>).
\<close>

record app =
  input_text :: string
  output_text :: string
  is_loading :: bool
  scheduled :: "nat list"

definition initial_app :: app where
  "initial_app = \<lparr>input_text = [], output_text = ''Initial Output'', is_loading = False,
     scheduled = []\<rparr>"

definition on_text_changed :: "string \<Rightarrow> app \<Rightarrow> app" where
  "on_text_changed text a = a\<lparr>input_text := text\<rparr>"

definition on_ask_clicked :: "app \<Rightarrow> app" where
  "on_ask_clicked a =
     a\<lparr>is_loading := True, output_text := ''Processing...'', scheduled := scheduled a @ [2]\<rparr>"

text \<open>
  \<open>finish_processing\<close> calls \<open>self.rag\<close>, an attribute of the application object. The
  class body binds \<open>input_text\<close>, \<open>output_text\<close>, \<open>is_loading\<close>, \<open>window_size\<close>, \<open>build\<close>,
  \<open>on_text_changed\<close>, \<open>on_ask_clicked\<close> and \<open>finish_processing\<close>; no statement of the
  module assigns \<open>rag\<close> to the class or to an instance. So the lookup is answered by
  the base class \<open>App\<close> of the GUI toolkit, which lies outside the repository: the
  parameter \<open>inherited\<close> gives the attributes it provides, and a name it does not
  provide raises AttributeError. An exception leaves the assignments after it undone.
  The result is the world, the application object and the exception raised, if any.
\<close>

type_synonym rag_fn = "string \<Rightarrow> world \<Rightarrow> world \<times> (error + string)"

definition finish_processing ::
    "(string \<rightharpoonup> rag_fn) \<Rightarrow> app \<Rightarrow> world \<Rightarrow> world \<times> app \<times> error option" where
  "finish_processing inherited a w =
     (case inherited ''rag'' of
        None \<Rightarrow> (w, a, Some (AttributeError ''rag''))
      | Some self_rag \<Rightarrow>
          (case self_rag (input_text a) w of
             (w', Inl e) \<Rightarrow> (w', a, Some e)
           | (w', Inr answer) \<Rightarrow>
               (w', a\<lparr>output_text := ''Output: '' @ answer, is_loading := False\<rparr>, None)))"

text \<open>
  The clock running its oldest registered callback, \<open>lambda dt: self.finish_processing()\<close>.
\<close>

definition run_scheduled ::
    "(string \<rightharpoonup> rag_fn) \<Rightarrow> app \<Rightarrow> world \<Rightarrow> world \<times> app \<times> error option" where
  "run_scheduled inherited a w =
     (case scheduled a of
        [] \<Rightarrow> (w, a, None)
      | delay # rest \<Rightarrow> finish_processing inherited (a\<lparr>scheduled := rest\<rparr>) w)"

section \<open>Properties of the string methods and the template\<close>

lemma prompt_template_eq:
  "prompt_template = prompt_head @ ''{question}'' @ prompt_mid @ ''{context}''"
  by (simp add: prompt_template_def prompt_template_literal_def strip_def lstrip_def
      rstrip_def is_space_def prompt_head_def prompt_mid_def)

lemma format_scan_mid:
  "format_scan [(''question'', q), (''context'', c)] None (prompt_mid @ ''{context}'')
     = Inr (prompt_mid @ c)"
  by (simp add: prompt_mid_def)

lemma format_scan_question:
  "format_scan [(''question'', q), (''context'', c)] None
     (''{question}'' @ prompt_mid @ ''{context}'') = Inr (q @ prompt_mid @ c)"
  using format_scan_mid [of q c] by simp

lemma format_scan_literal:
  "CHR ''{'' \<notin> set lit \<Longrightarrow> CHR ''}'' \<notin> set lit \<Longrightarrow>
   format_scan kw None (lit @ rest) =
     (case format_scan kw None rest of Inl e \<Rightarrow> Inl e | Inr r \<Rightarrow> Inr (lit @ r))"
  by (induction lit) (auto split: sum.splits)

lemma format_prompt_template:
  "format_str prompt_template [(''question'', q), (''context'', c)]
     = Inr (prompt_head @ q @ prompt_mid @ c)"
proof -
  let ?kw = "[(''question'', q), (''context'', c)]"
  let ?rest = "''{question}'' @ prompt_mid @ ''{context}''"
  have "CHR ''{'' \<notin> set prompt_head" and "CHR ''}'' \<notin> set prompt_head"
    by (simp_all add: prompt_head_def)
  then have "format_scan ?kw None (prompt_head @ ?rest) =
      (case format_scan ?kw None ?rest of Inl e \<Rightarrow> Inl e | Inr r \<Rightarrow> Inr (prompt_head @ r))"
    by (rule format_scan_literal)
  also have "\<dots> = Inr (prompt_head @ q @ prompt_mid @ c)"
    by (simp only: format_scan_question sum.case)
  finally show ?thesis
    by (simp only: format_str_def prompt_template_eq)
qed

lemma rstrip_append_spaces: "\<forall>c\<in>set ws. is_space c \<Longrightarrow> rstrip (xs @ ws) = rstrip xs"
  unfolding rstrip_def rev_append by (subst dropWhile_append2) auto

lemma rstrip_snoc_nonspace: "\<not> is_space c \<Longrightarrow> rstrip (xs @ [c]) = xs @ [c]"
  by (simp add: rstrip_def)

lemma rstrip_core:
  assumes "xs \<noteq> []" and "\<not> is_space (last xs)" and "\<forall>c\<in>set ws. is_space c"
  shows "rstrip (xs @ ws) = xs"
proof -
  have "rstrip (xs @ ws) = rstrip (butlast xs @ [last xs])"
    using assms(1,3) by (simp add: rstrip_append_spaces)
  also have "\<dots> = butlast xs @ [last xs]"
    using assms(2) by (rule rstrip_snoc_nonspace)
  finally show ?thesis
    using assms(1) by simp
qed

lemma strip_prompt: "strip (prompt_head @ s) = rstrip (prompt_head @ s)"
  by (simp add: strip_def prompt_head_def lstrip_def is_space_def)

section \<open>Properties of the prompt builder\<close>

lemma doc_block_has_keys: "has_keys d \<Longrightarrow> doc_block d = Inr (rendered_block d)"
  by (auto simp: has_keys_def doc_block_def getitem_def rendered_block_def)

lemma doc_block_missing:
  assumes "\<not> has_keys d"
  shows "\<exists>k. (k = ''section'' \<or> k = ''question'' \<or> k = ''text'') \<and> d k = None
            \<and> doc_block d = Inl (KeyError k)"
proof (cases "d ''section''")
  case None
  then show ?thesis by (auto simp: doc_block_def getitem_def)
next
  case s: (Some s)
  show ?thesis
  proof (cases "d ''question''")
    case None
    with s show ?thesis by (auto simp: doc_block_def getitem_def)
  next
    case qn: (Some qn)
    with s assms have "d ''text'' = None"
      by (simp add: has_keys_def)
    with s qn show ?thesis by (auto simp: doc_block_def getitem_def)
  qed
qed

lemma build_context_has_keys:
  "\<forall>d\<in>set ds. has_keys d \<Longrightarrow>
   build_context acc ds = Inr (acc @ concat (map rendered_block ds))"
  by (induction ds arbitrary: acc) (simp_all add: doc_block_has_keys)

lemma build_context_missing:
  "\<exists>d\<in>set ds. \<not> has_keys d \<Longrightarrow>
   \<exists>k d. d \<in> set ds \<and> (k = ''section'' \<or> k = ''question'' \<or> k = ''text'') \<and> d k = None
          \<and> build_context acc ds = Inl (KeyError k)"
proof (induction ds arbitrary: acc)
  case Nil
  then show ?case by simp
next
  case (Cons d ds)
  show ?case
  proof (cases "has_keys d")
    case True
    with Cons.prems have "\<exists>d\<in>set ds. \<not> has_keys d" by auto
    from Cons.IH [OF this, of "acc @ rendered_block d"] True show ?thesis
      by (auto simp: doc_block_has_keys)
  next
    case False
    from doc_block_missing [OF this] show ?thesis by auto
  qed
qed

lemma build_prompt_has_keys:
  "\<forall>d\<in>set ds. has_keys d \<Longrightarrow>
   build_prompt q ds =
     Inr (rstrip (prompt_head @ q @ prompt_mid @ concat (map rendered_block ds)))"
  by (simp add: build_prompt_def build_context_has_keys format_prompt_template strip_prompt)

lemma build_prompt_missing:
  "\<exists>d\<in>set ds. \<not> has_keys d \<Longrightarrow>
   \<exists>k d. d \<in> set ds \<and> (k = ''section'' \<or> k = ''question'' \<or> k = ''text'') \<and> d k = None
          \<and> build_prompt q ds = Inl (KeyError k)"
  using build_context_missing [of ds "[]"] by (auto simp: build_prompt_def)

lemma build_prompt_nil:
  "build_prompt q [] = Inr (prompt_head @ q @ ''\<newline>\<newline>    CONTEXT:'')"
proof -
  let ?body = "prompt_head @ q @ ''\<newline>\<newline>    CONTEXT:''"
  have "rstrip (?body @ '' \<newline>    '') = ?body"
    by (rule rstrip_core) (simp_all add: is_space_def)
  then show ?thesis
    by (simp add: build_prompt_has_keys prompt_mid_def)
qed

lemma starts_with_append: "starts_with (sub @ ys) sub"
  by (induction sub) simp_all

lemma contains_prefix: "contains (sub @ ys) sub"
  using starts_with_append [of sub ys] by (cases "sub @ ys") auto

lemma contains_middle: "contains (xs @ sub @ ys) sub"
proof (induction xs)
  case Nil
  show ?case by (simp add: contains_prefix)
next
  case (Cons x xs)
  then show ?case by simp
qed

text \<open>
  Claim C4. For the search results
  \<open>[{"section": "General", "question": "What is X?", "text": "X is Y."}]\<close> and the query
  \<open>What is X?\<close>, \<open>build_prompt\<close> returns the two instruction lines, the line
  \<open>QUESTION: What is X?\<close>, the line \<open>CONTEXT:\<close> and one context block of three lines: the
  section line, the question line and the line with the text (labelled \<open>answer:\<close>). The
  theorem gives the returned string character by character; the block occurs once, its
  first line carries the indentation of the template and the closing blank lines are
  trimmed.
\<close>

theorem build_prompt_single_document:
  "build_prompt ''What is X?''
     [[''section'' \<mapsto> ''General'', ''question'' \<mapsto> ''What is X?'', ''text'' \<mapsto> ''X is Y.'']]
   = Inr ''You're a course teaching assistant. Answer the QUESTION based on the CONTEXT from the FAQ database.\<newline>    Use only the facts from the CONTEXT when answering the QUESTION.\<newline>\<newline>    QUESTION: What is X?\<newline>\<newline>    CONTEXT: \<newline>    section: General\<newline>question: What is X?\<newline>answer: X is Y.''"
  by (simp add: build_prompt_def doc_block_def getitem_def format_str_def prompt_template_eq
      prompt_head_def prompt_mid_def strip_def lstrip_def rstrip_def is_space_def)

text \<open>
  Claim C6. For every query, \<open>build_prompt\<close> on the empty list of search results returns
  normally: the template is rendered with the empty string in place of the context, the
  result is that rendering trimmed (it ends with \<open>CONTEXT:\<close>), and the query occurs in it.
\<close>

theorem build_prompt_empty_context:
  "format_str prompt_template [(''question'', q), (''context'', [])]
     = Inr (prompt_head @ q @ ''\<newline>\<newline>    CONTEXT: \<newline>    '')
   \<and> build_prompt q [] = Inr (prompt_head @ q @ ''\<newline>\<newline>    CONTEXT:'')
   \<and> contains (prompt_head @ q @ ''\<newline>\<newline>    CONTEXT:'') q"
  using format_prompt_template [of q "[]"]
  by (simp add: build_prompt_nil prompt_mid_def contains_middle)

text \<open>
  Claim C9. \<open>build_prompt\<close> returns a prompt whenever every document has the keys
  \<open>section\<close>, \<open>question\<close> and \<open>text\<close>; when some document of the list lacks one of them it
  raises KeyError for such a key, missing from a document of the list. It never raises
  ValueError, and the empty list gives a prompt.
\<close>

theorem build_prompt_total_iff_keys:
  "((\<forall>d\<in>set docs. has_keys d) \<longrightarrow> (\<exists>p. build_prompt q docs = Inr p))
   \<and> ((\<exists>d\<in>set docs. \<not> has_keys d) \<longrightarrow>
        (\<exists>k d. d \<in> set docs \<and> (k = ''section'' \<or> k = ''question'' \<or> k = ''text'')
               \<and> d k = None \<and> build_prompt q docs = Inl (KeyError k)))
   \<and> build_prompt q docs \<noteq> Inl ValueError
   \<and> (\<exists>p. build_prompt q [] = Inr p)"
proof -
  have a: "(\<forall>d\<in>set docs. has_keys d) \<longrightarrow> (\<exists>p. build_prompt q docs = Inr p)"
    by (simp add: build_prompt_has_keys)
  have b: "(\<exists>d\<in>set docs. \<not> has_keys d) \<longrightarrow>
        (\<exists>k d. d \<in> set docs \<and> (k = ''section'' \<or> k = ''question'' \<or> k = ''text'')
               \<and> d k = None \<and> build_prompt q docs = Inl (KeyError k))"
    using build_prompt_missing [of docs q] by blast
  have c: "build_prompt q docs \<noteq> Inl ValueError"
  proof (cases "\<forall>d\<in>set docs. has_keys d")
    case True
    with a show ?thesis by auto
  next
    case False
    with b show ?thesis by auto
  qed
  have d: "\<exists>p. build_prompt q [] = Inr p"
    by (simp add: build_prompt_nil)
  from a b c d show ?thesis by blast
qed

theorem build_prompt_total_iff_keys_witness:
  "build_prompt ''q'' [[''section'' \<mapsto> ''S'', ''question'' \<mapsto> ''Q'', ''text'' \<mapsto> ''T'']]
     \<noteq> Inl ValueError
   \<and> (\<exists>p. build_prompt ''q''
          [[''section'' \<mapsto> ''S'', ''question'' \<mapsto> ''Q'', ''text'' \<mapsto> ''T'']] = Inr p)
   \<and> (\<exists>k. build_prompt ''q''
          [[''section'' \<mapsto> ''S'', ''question'' \<mapsto> ''Q'', ''text'' \<mapsto> ''T''],
           [''section'' \<mapsto> ''S'', ''question'' \<mapsto> ''Q'']] = Inl (KeyError k))"
proof -
  let ?full = "[''section'' \<mapsto> ''S'', ''question'' \<mapsto> ''Q'', ''text'' \<mapsto> ''T'']"
  let ?part = "[''section'' \<mapsto> ''S'', ''question'' \<mapsto> ''Q'']"
  have f: "has_keys ?full" by (simp add: has_keys_def)
  have p: "\<not> has_keys ?part" by (simp add: has_keys_def)
  from f p show ?thesis
    using build_prompt_total_iff_keys [of "[?full]" "''q''"]
      build_prompt_total_iff_keys [of "[?full, ?part]" "''q''"]
    by auto
qed

lemma rstrip_decomp: "\<exists>ws. rstrip s @ ws = s \<and> (\<forall>c\<in>set ws. is_space c)"
proof -
  let ?ws = "rev (takeWhile is_space (rev s))"
  have "rev (takeWhile is_space (rev s) @ dropWhile is_space (rev s)) = s"
    by simp
  then have "rstrip s @ ?ws = s"
    by (simp only: rev_append rstrip_def)
  moreover have "\<forall>c\<in>set ?ws. is_space c"
    by (auto dest: set_takeWhileD)
  ultimately show ?thesis by blast
qed

lemma rstrip_keeps: "\<not> is_space c \<Longrightarrow> \<exists>r. rstrip (xs @ c # s) = xs @ c # r"
  by (auto simp: rstrip_def dropWhile_append)

lemma rendered_block_last:
  "concat (map rendered_block (ds @ [d])) =
     concat (map rendered_block ds) @ ''section: '' @ the (d ''section'') @ ''\<newline>question: ''
       @ the (d ''question'') @ ''\<newline>answer: '' @ the (d ''text'') @ ''\<newline>\<newline>''"
  by (simp add: rendered_block_def)

lemma rstrip_last_block:
  assumes "\<not> ends_with_space t"
  shows "rstrip (xs @ ''\<newline>answer: '' @ t @ ''\<newline>\<newline>'')
           @ (if t = [] then '' \<newline>\<newline>'' else ''\<newline>\<newline>'')
         = xs @ ''\<newline>answer: '' @ t @ ''\<newline>\<newline>''"
proof (cases "t = []")
  case True
  have "rstrip ((xs @ ''\<newline>answer:'') @ '' \<newline>\<newline>'') = xs @ ''\<newline>answer:''"
    by (rule rstrip_core) (simp_all add: is_space_def)
  with True show ?thesis by simp
next
  case False
  with assms have "\<not> is_space (last t)"
    by (simp add: ends_with_space_def)
  with False have "rstrip ((xs @ ''\<newline>answer: '' @ t) @ ''\<newline>\<newline>'') = xs @ ''\<newline>answer: '' @ t"
    by (intro rstrip_core) (simp_all add: is_space_def)
  with False show ?thesis by simp
qed

lemma rstrip_no_trailing_space: "\<not> ends_with_space (rstrip s)"
proof (cases "dropWhile is_space (rev s) = []")
  case True
  then show ?thesis
    by (simp add: ends_with_space_def rstrip_def)
next
  case False
  then have "\<not> is_space (hd (dropWhile is_space (rev s)))"
    by (rule hd_dropWhile)
  with False show ?thesis
    by (simp add: ends_with_space_def rstrip_def last_rev)
qed

text \<open>
  Claim C3, as amended. For every query and every list of documents that all have the
  keys \<open>section\<close>, \<open>question\<close> and \<open>text\<close> (of any length, duplicates included),
  \<open>build_prompt\<close> returns \<open>strip\<close> of the full rendering. The full rendering is the
  template text, the query, the \<open>CONTEXT:\<close> heading and, for each document in list order,
  the block \<open>section: S\<close>, \<open>question: Q\<close>, \<open>answer: T\<close> closed by two newlines. The returned
  string is the full rendering without its trailing whitespace: it is a prefix of the
  rendering, what is cut off is whitespace only, and the returned string does not end in
  whitespace (so whitespace at the end of the last document's text is cut off too). The
  returned string begins with the template text, the query and the \<open>CONTEXT:\<close> heading,
  so the query is always there in full. When the list is not empty and the text of its
  last document does not end in whitespace, what is cut off is exactly the two closing
  newlines of the last block, preceded by the blank after \<open>answer:\<close> when that text is
  empty; then every document's section, question and text stand in the returned string
  in full and in order.
\<close>

theorem build_prompt_renders_documents:
  assumes "\<forall>d\<in>set docs. has_keys d"
  shows "\<exists>p ws r. build_prompt q docs = Inr p
      \<and> p = strip (prompt_head @ q @ prompt_mid @ concat (map rendered_block docs))
      \<and> p @ ws = prompt_head @ q @ prompt_mid @ concat (map rendered_block docs)
      \<and> (\<forall>c\<in>set ws. is_space c)
      \<and> \<not> ends_with_space p
      \<and> p = prompt_head @ q @ ''\<newline>\<newline>    CONTEXT:'' @ r
      \<and> (docs \<noteq> [] \<and> \<not> ends_with_space (the (last docs ''text'')) \<longrightarrow>
           ws = (if the (last docs ''text'') = [] then '' \<newline>\<newline>'' else ''\<newline>\<newline>''))"
proof -
  define full where "full = prompt_head @ q @ prompt_mid @ concat (map rendered_block docs)"
  define t where "t = the (last docs ''text'')"
  define tl where "tl = (if t = [] then '' \<newline>\<newline>'' else ''\<newline>\<newline>'')"
  have bp: "build_prompt q docs = Inr (rstrip full)"
    unfolding full_def using assms by (rule build_prompt_has_keys)
  have st: "rstrip full = strip full"
    unfolding full_def by (rule strip_prompt [symmetric])
  obtain ws where ws: "rstrip full @ ws = full" "\<forall>c\<in>set ws. is_space c"
    using rstrip_decomp by blast
  define a where "a = prompt_head @ q @ ''\<newline>\<newline>    CONTEXT''"
  define b where "b = '' \<newline>    '' @ concat (map rendered_block docs)"
  have ab: "full = a @ CHR '':'' # b"
    by (simp add: full_def prompt_mid_def a_def b_def)
  have "\<not> is_space CHR '':''"
    by (simp add: is_space_def)
  from rstrip_keeps [OF this, of a b] obtain r where "rstrip full = a @ CHR '':'' # r"
    unfolding ab by blast
  then have r: "rstrip full = prompt_head @ q @ ''\<newline>\<newline>    CONTEXT:'' @ r"
    by (simp add: a_def)
  have tail: "ws = tl" if ne: "docs \<noteq> []" and sp: "\<not> ends_with_space t"
  proof -
    from ne obtain ds d where docs: "docs = ds @ [d]"
      by (cases docs rule: rev_cases) auto
    define xs where "xs = prompt_head @ q @ prompt_mid @ concat (map rendered_block ds)
        @ ''section: '' @ the (d ''section'') @ ''\<newline>question: '' @ the (d ''question'')"
    have td: "t = the (d ''text'')"
      by (simp add: t_def docs)
    have full: "full = xs @ ''\<newline>answer: '' @ t @ ''\<newline>\<newline>''"
      unfolding full_def docs rendered_block_last xs_def td by simp
    from rstrip_last_block [OF sp, of xs] have "rstrip full @ tl = full"
      by (simp only: full tl_def)
    with ws(1) have "rstrip full @ ws = rstrip full @ tl"
      by (simp only:)
    then show ?thesis
      by (simp only: same_append_eq)
  qed
  show ?thesis
  proof (intro exI conjI)
    show "build_prompt q docs = Inr (rstrip full)"
      by (rule bp)
    show "rstrip full = strip (prompt_head @ q @ prompt_mid @ concat (map rendered_block docs))"
      using st by (simp only: full_def)
    show "rstrip full @ ws = prompt_head @ q @ prompt_mid @ concat (map rendered_block docs)"
      using ws(1) by (simp only: full_def)
    show "\<forall>c\<in>set ws. is_space c"
      by (rule ws(2))
    show "\<not> ends_with_space (rstrip full)"
      by (rule rstrip_no_trailing_space)
    show "rstrip full = prompt_head @ q @ ''\<newline>\<newline>    CONTEXT:'' @ r"
      by (rule r)
    show "docs \<noteq> [] \<and> \<not> ends_with_space (the (last docs ''text'')) \<longrightarrow>
           ws = (if the (last docs ''text'') = [] then '' \<newline>\<newline>'' else ''\<newline>\<newline>'')"
      using tail by (simp only: t_def tl_def) blast
  qed
qed

theorem build_prompt_renders_documents_witness:
  "\<exists>p. build_prompt ''Why?''
       [[''section'' \<mapsto> ''A'', ''question'' \<mapsto> ''B'', ''text'' \<mapsto> ''C ''],
        [''section'' \<mapsto> ''D'', ''question'' \<mapsto> ''E'', ''text'' \<mapsto> ''F'']] = Inr p
     \<and> p = strip (prompt_head @ ''Why?'' @ prompt_mid
          @ concat (map rendered_block
              [[''section'' \<mapsto> ''A'', ''question'' \<mapsto> ''B'', ''text'' \<mapsto> ''C ''],
               [''section'' \<mapsto> ''D'', ''question'' \<mapsto> ''E'', ''text'' \<mapsto> ''F'']]))
     \<and> \<not> ends_with_space p
     \<and> p @ ''\<newline>\<newline>'' = prompt_head @ ''Why?'' @ prompt_mid
          @ concat (map rendered_block
              [[''section'' \<mapsto> ''A'', ''question'' \<mapsto> ''B'', ''text'' \<mapsto> ''C ''],
               [''section'' \<mapsto> ''D'', ''question'' \<mapsto> ''E'', ''text'' \<mapsto> ''F'']])"
proof -
  define docs :: "doc list" where
    "docs = [[''section'' \<mapsto> ''A'', ''question'' \<mapsto> ''B'', ''text'' \<mapsto> ''C ''],
             [''section'' \<mapsto> ''D'', ''question'' \<mapsto> ''E'', ''text'' \<mapsto> ''F'']]"
  have k: "\<forall>d\<in>set docs. has_keys d"
    by (simp add: docs_def has_keys_def)
  have t: "the (last docs ''text'') = ''F''"
    by (simp add: docs_def)
  have c: "docs \<noteq> [] \<and> \<not> ends_with_space (the (last docs ''text''))"
    unfolding t by (simp add: docs_def ends_with_space_def is_space_def)
  from build_prompt_renders_documents [OF k, of "''Why?''"] obtain p ws
    where p: "build_prompt ''Why?'' docs = Inr p"
      and s: "p = strip (prompt_head @ ''Why?'' @ prompt_mid @ concat (map rendered_block docs))"
      and ws: "p @ ws = prompt_head @ ''Why?'' @ prompt_mid @ concat (map rendered_block docs)"
      and e: "\<not> ends_with_space p"
      and tl: "docs \<noteq> [] \<and> \<not> ends_with_space (the (last docs ''text'')) \<longrightarrow>
           ws = (if the (last docs ''text'') = [] then '' \<newline>\<newline>'' else ''\<newline>\<newline>'')"
    by blast
  from tl c have "ws = ''\<newline>\<newline>''"
    unfolding t by simp
  with p s ws e show ?thesis
    unfolding docs_def by blast
qed

text \<open>
  The claim as stated fails when the text of the last document ends in whitespace: for the
  text \<open>X is Y.\<close> followed by a newline the returned string ends with \<open>answer: X is Y.\<close>
  and the text value does not occur in it.
\<close>

theorem build_prompt_trims_last_text:
  "build_prompt ''What is X?''
     [[''section'' \<mapsto> ''General'', ''question'' \<mapsto> ''What is X?'', ''text'' \<mapsto> ''X is Y.\<newline>'']]
   = Inr ''You're a course teaching assistant. Answer the QUESTION based on the CONTEXT from the FAQ database.\<newline>    Use only the facts from the CONTEXT when answering the QUESTION.\<newline>\<newline>    QUESTION: What is X?\<newline>\<newline>    CONTEXT: \<newline>    section: General\<newline>question: What is X?\<newline>answer: X is Y.''
   \<and> \<not> contains ''You're a course teaching assistant. Answer the QUESTION based on the CONTEXT from the FAQ database.\<newline>    Use only the facts from the CONTEXT when answering the QUESTION.\<newline>\<newline>    QUESTION: What is X?\<newline>\<newline>    CONTEXT: \<newline>    section: General\<newline>question: What is X?\<newline>answer: X is Y.'' ''X is Y.\<newline>''"
  by (simp add: build_prompt_def doc_block_def getitem_def format_str_def prompt_template_eq
      prompt_head_def prompt_mid_def strip_def lstrip_def rstrip_def is_space_def)

section \<open>Properties of the clients, the orchestrator and the handlers\<close>

lemma collect_sources_map: "collect_sources acc hs = acc @ map source hs"
  by (induction hs arbitrary: acc) simp_all

lemma elastic_search_result:
  "snd (elastic_search es q idx w) =
     (case es idx (search_query q) of Inl e \<Rightarrow> Inl e | Inr r \<Rightarrow> Inr (map source (hits r)))"
  by (simp add: elastic_search_def Let_def collect_sources_map split: sum.splits)

lemma elastic_search_world:
  "fst (elastic_search es q idx w) = w\<lparr>es_calls := es_calls w @ [(idx, search_query q)]\<rparr>"
  by (simp add: elastic_search_def Let_def split: sum.splits)

lemma llm_result:
  "snd (llm chat p w) =
     (case chat ''phi3'' [\<lparr>role = ''user'', content = p\<rparr>] of
        Inl e \<Rightarrow> Inl e
      | Inr r \<Rightarrow> (case choices r of [] \<Rightarrow> Inl IndexError | c # _ \<Rightarrow> Inr (content (message c))))"
  by (simp add: llm_def Let_def split: sum.splits list.splits)

lemma llm_world:
  "fst (llm chat p w) =
     w\<lparr>chat_calls := chat_calls w @ [(''phi3'', [\<lparr>role = ''user'', content = p\<rparr>])]\<rparr>"
  by (simp add: llm_def Let_def split: sum.splits list.splits)

lemma rag_result:
  "snd (rag es chat q w) =
     (case es default_index (search_query q) of
        Inl e \<Rightarrow> Inl e
      | Inr r \<Rightarrow>
          (case build_prompt q (map source (hits r)) of
             Inl e \<Rightarrow> Inl e
           | Inr p \<Rightarrow>
               (case chat ''phi3'' [\<lparr>role = ''user'', content = p\<rparr>] of
                  Inl e \<Rightarrow> Inl e
                | Inr c \<Rightarrow>
                    (case choices c of
                       [] \<Rightarrow> Inl IndexError
                     | ch # _ \<Rightarrow> Inr (content (message ch))))))"
  by (simp add: rag_def elastic_search_def llm_def Let_def collect_sources_map
      split: sum.splits list.splits)

text \<open>
  Claim C2. For every query string, the empty one included, \<open>elastic_search\<close> sends one
  request, to the index it is given, whose body has \<open>size\<close> 5, whose \<open>must\<close> clause is a
  \<open>multi_match\<close> of the query text over exactly the fields \<open>question^3\<close>, \<open>text\<close> and
  \<open>section\<close> (in the notation of the search service a boost of 3 on \<open>question\<close> and the
  default boost of 1 on the other two), and whose \<open>filter\<close> is the term
  \<open>course = data-engineering-zoomcamp\<close>. The query occurs only as the \<open>multi_match\<close>
  query text: replacing that one value turns the body for one query into the body for
  any other.
\<close>

theorem elastic_search_request_fixed:
  "es_calls (fst (elastic_search es q idx w)) = es_calls w @ [(idx, search_query q)]
   \<and> jpath (search_query q) [''size''] = Some (JInt 5)
   \<and> jpath (search_query q) [''query'', ''bool'', ''must''] =
       Some (JObj [(''multi_match'', JObj [
         (''query'', JStr q),
         (''fields'', JList [JStr ''question^3'', JStr ''text'', JStr ''section'']),
         (''type'', JStr ''best_fields'')])])
   \<and> jpath (search_query q) [''query'', ''bool'', ''filter''] =
       Some (JObj [(''term'', JObj [(''course'', JStr ''data-engineering-zoomcamp'')])])
   \<and> jupdate [''query'', ''bool'', ''must'', ''multi_match'', ''query''] (JStr q')
         (search_query q) = search_query q'
   \<and> jpath (search_query []) [''size''] = Some (JInt 5)"
  by (simp add: elastic_search_world search_query_def)

text \<open>
  Claim C5. For every prompt, \<open>llm\<close> sends one request, for the model \<open>phi3\<close>, whose
  message list has exactly one message, with role \<open>user\<close> and the prompt as content. When
  the service answers with at least one choice, \<open>llm\<close> returns the content of the first
  choice unchanged; when the service fails, that failure is the result.
\<close>

theorem llm_single_user_message:
  "chat_calls (fst (llm chat p w)) =
       chat_calls w @ [(''phi3'', [\<lparr>role = ''user'', content = p\<rparr>])]
   \<and> (\<forall>r c cs. chat ''phi3'' [\<lparr>role = ''user'', content = p\<rparr>] = Inr r \<and> choices r = c # cs
        \<longrightarrow> snd (llm chat p w) = Inr (content (message c)))
   \<and> (\<forall>e. chat ''phi3'' [\<lparr>role = ''user'', content = p\<rparr>] = Inl e
        \<longrightarrow> snd (llm chat p w) = Inl e)"
  by (simp add: llm_world llm_result)

theorem llm_single_user_message_witness:
  "snd (llm (\<lambda>model messages. Inr \<lparr>choices =
        [\<lparr>message = \<lparr>role = ''assistant'', content = ''Register on the course page.''\<rparr>\<rparr>,
         \<lparr>message = \<lparr>role = ''assistant'', content = ''Other''\<rparr>\<rparr>]\<rparr>)
      ''How?'' \<lparr>console = [], es_calls = [], chat_calls = []\<rparr>)
     = Inr ''Register on the course page.''
   \<and> snd (llm (\<lambda>model messages. Inl (ServiceError ''timeout''))
      ''How?'' \<lparr>console = [], es_calls = [], chat_calls = []\<rparr>)
     = Inl (ServiceError ''timeout'')"
  using llm_single_user_message [of "\<lambda>model messages. Inr \<lparr>choices =
        [\<lparr>message = \<lparr>role = ''assistant'', content = ''Register on the course page.''\<rparr>\<rparr>,
         \<lparr>message = \<lparr>role = ''assistant'', content = ''Other''\<rparr>\<rparr>]\<rparr>"
      "''How?''" "\<lparr>console = [], es_calls = [], chat_calls = []\<rparr>"]
    llm_single_user_message [of "\<lambda>model messages. Inl (ServiceError ''timeout'')"
      "''How?''" "\<lparr>console = [], es_calls = [], chat_calls = []\<rparr>"]
  by simp

text \<open>
  Claim C1. For every query, what \<open>rag\<close> returns is what \<open>llm\<close> returns for the prompt
  that \<open>build_prompt\<close> makes of the query and the result of \<open>elastic_search\<close> for it, an
  exception of an earlier step being the result. In particular, when the search
  succeeds, the prompt is built and the completion service answers, \<open>rag\<close> returns the
  content of the first choice unchanged.
\<close>

theorem rag_is_composition:
  "snd (rag es chat q w) =
     (case snd (elastic_search es q default_index w1) of
        Inl e \<Rightarrow> Inl e
      | Inr search_results \<Rightarrow>
          (case build_prompt q search_results of
             Inl e \<Rightarrow> Inl e
           | Inr prompt \<Rightarrow> snd (llm chat prompt w2)))
   \<and> (\<forall>r p c ch cs.
         es default_index (search_query q) = Inr r
         \<and> build_prompt q (map source (hits r)) = Inr p
         \<and> chat ''phi3'' [\<lparr>role = ''user'', content = p\<rparr>] = Inr c
         \<and> choices c = ch # cs
         \<longrightarrow> rag es chat q w =
               (w\<lparr>console := console w @
                    [''--------------IDENTIFYING RELATED CONTENT USING ELASTIC SEARCH-------------------'',
                     ''--------------BUILDING PROMPT-------------------'',
                     ''--------------CALLING THE LLM-------------------'',
                     ''--------------RETURNING THE ANSWER-------------------''],
                  es_calls := es_calls w @ [(default_index, search_query q)],
                  chat_calls := chat_calls w @ [(''phi3'', [\<lparr>role = ''user'', content = p\<rparr>])]\<rparr>,
                Inr (content (message ch))))"
proof -
  have a: "snd (rag es chat q w) =
     (case snd (elastic_search es q default_index w1) of
        Inl e \<Rightarrow> Inl e
      | Inr search_results \<Rightarrow>
          (case build_prompt q search_results of
             Inl e \<Rightarrow> Inl e
           | Inr prompt \<Rightarrow> snd (llm chat prompt w2)))"
    by (simp add: rag_result elastic_search_result llm_result split: sum.splits)
  have b: "rag es chat q w =
               (w\<lparr>console := console w @
                    [''--------------IDENTIFYING RELATED CONTENT USING ELASTIC SEARCH-------------------'',
                     ''--------------BUILDING PROMPT-------------------'',
                     ''--------------CALLING THE LLM-------------------'',
                     ''--------------RETURNING THE ANSWER-------------------''],
                  es_calls := es_calls w @ [(default_index, search_query q)],
                  chat_calls := chat_calls w @ [(''phi3'', [\<lparr>role = ''user'', content = p\<rparr>])]\<rparr>,
                Inr (content (message ch)))"
    if "es default_index (search_query q) = Inr r"
      and "build_prompt q (map source (hits r)) = Inr p"
      and "chat ''phi3'' [\<lparr>role = ''user'', content = p\<rparr>] = Inr c"
      and "choices c = ch # cs" for r p c ch cs
    using that
    by (simp add: rag_def elastic_search_def llm_def print_def Let_def collect_sources_map)
  from a b show ?thesis
    by blast
qed

theorem rag_is_composition_witness:
  "snd (rag
      (\<lambda>index_name body. Inr \<lparr>hits = [\<lparr>source =
          [''section'' \<mapsto> ''General'', ''question'' \<mapsto> ''How do I join?'',
           ''text'' \<mapsto> ''Register on the course page.'', ''course'' \<mapsto> ''data-engineering-zoomcamp'']\<rparr>]\<rparr>)
      (\<lambda>model messages. Inr \<lparr>choices =
          [\<lparr>message = \<lparr>role = ''assistant'', content = ''Register on the course page.''\<rparr>\<rparr>]\<rparr>)
      ''How do I join the course?''
      \<lparr>console = [], es_calls = [], chat_calls = []\<rparr>)
   = Inr ''Register on the course page.''"
proof -
  define d :: doc where
    "d = [''section'' \<mapsto> ''General'', ''question'' \<mapsto> ''How do I join?'',
          ''text'' \<mapsto> ''Register on the course page.'', ''course'' \<mapsto> ''data-engineering-zoomcamp'']"
  define es :: es_service where "es = (\<lambda>index_name body. Inr \<lparr>hits = [\<lparr>source = d\<rparr>]\<rparr>)"
  define chat :: chat_service where
    "chat = (\<lambda>model messages. Inr \<lparr>choices =
          [\<lparr>message = \<lparr>role = ''assistant'', content = ''Register on the course page.''\<rparr>\<rparr>]\<rparr>)"
  define w :: world where "w = \<lparr>console = [], es_calls = [], chat_calls = []\<rparr>"
  have "has_keys d"
    by (simp add: has_keys_def d_def)
  then obtain p where p: "build_prompt ''How do I join the course?'' [d] = Inr p"
    using build_prompt_has_keys [of "[d]" "''How do I join the course?''"] by simp
  have "es default_index (search_query ''How do I join the course?'') = Inr \<lparr>hits = [\<lparr>source = d\<rparr>]\<rparr>
      \<and> build_prompt ''How do I join the course?'' (map source (hits \<lparr>hits = [\<lparr>source = d\<rparr>]\<rparr>)) = Inr p
      \<and> chat ''phi3'' [\<lparr>role = ''user'', content = p\<rparr>] = Inr \<lparr>choices =
          [\<lparr>message = \<lparr>role = ''assistant'', content = ''Register on the course page.''\<rparr>\<rparr>]\<rparr>
      \<and> choices \<lparr>choices =
          [\<lparr>message = \<lparr>role = ''assistant'', content = ''Register on the course page.''\<rparr>\<rparr>]\<rparr>
        = \<lparr>message = \<lparr>role = ''assistant'', content = ''Register on the course page.''\<rparr>\<rparr> # []"
    using p by (simp add: es_def chat_def)
  with rag_is_composition [of es chat "''How do I join the course?''" w w w]
  have "snd (rag es chat ''How do I join the course?'' w) = Inr ''Register on the course page.''"
    by (metis choice.select_convs(1) chat_message.select_convs(2) snd_conv)
  then show ?thesis
    by (simp only: es_def chat_def w_def d_def)
qed

text \<open>
  Claim C7. When the search call fails, \<open>rag\<close> returns that failure; only the first
  progress line has been printed, only the search request has been sent, so neither the
  prompt builder nor the completion client has run. When the completion call fails,
  \<open>rag\<close> returns that failure. No handler catches an exception or puts a substitute in
  its place. With the class as the module defines it, where nothing binds \<open>rag\<close> on the
  application object, \<open>finish_processing\<close> and the clock callback raise AttributeError on
  \<open>self.rag\<close>, send no request, print nothing and leave \<open>output_text\<close> and \<open>is_loading\<close>
  as they were. And whatever the attribute lookup gives, an exception that
  \<open>finish_processing\<close> raises leaves the application object as it was.
\<close>

theorem rag_propagates_failures:
  "(es default_index (search_query q) = Inl e \<longrightarrow>
      rag es chat q w =
        (w\<lparr>console := console w @
             [''--------------IDENTIFYING RELATED CONTENT USING ELASTIC SEARCH-------------------''],
           es_calls := es_calls w @ [(default_index, search_query q)]\<rparr>,
         Inl e)
      \<and> chat_calls (fst (rag es chat q w)) = chat_calls w)
   \<and> (\<forall>r p. es default_index (search_query q) = Inr r
         \<and> build_prompt q (map source (hits r)) = Inr p
         \<and> chat ''phi3'' [\<lparr>role = ''user'', content = p\<rparr>] = Inl e
         \<longrightarrow> snd (rag es chat q w) = Inl e)
   \<and> finish_processing (inherited(''rag'' := None)) a w = (w, a, Some (AttributeError ''rag''))
   \<and> (\<forall>delay rest. scheduled a = delay # rest
         \<longrightarrow> run_scheduled (inherited(''rag'' := None)) a w
               = (w, a\<lparr>scheduled := rest\<rparr>, Some (AttributeError ''rag'')))
   \<and> (\<forall>w' a' e'. finish_processing inherited a w = (w', a', Some e') \<longrightarrow> a' = a)"
proof -
  have a: "rag es chat q w =
        (w\<lparr>console := console w @
             [''--------------IDENTIFYING RELATED CONTENT USING ELASTIC SEARCH-------------------''],
           es_calls := es_calls w @ [(default_index, search_query q)]\<rparr>,
         Inl e)
      \<and> chat_calls (fst (rag es chat q w)) = chat_calls w"
    if "es default_index (search_query q) = Inl e"
    using that by (simp add: rag_def elastic_search_def print_def Let_def)
  have b: "snd (rag es chat q w) = Inl e"
    if "es default_index (search_query q) = Inr r"
      and "build_prompt q (map source (hits r)) = Inr p"
      and "chat ''phi3'' [\<lparr>role = ''user'', content = p\<rparr>] = Inl e" for r p
    using that by (simp add: rag_result)
  have c: "finish_processing (inherited(''rag'' := None)) a w
      = (w, a, Some (AttributeError ''rag''))"
    by (simp add: finish_processing_def)
  have d: "run_scheduled (inherited(''rag'' := None)) a w
      = (w, a\<lparr>scheduled := rest\<rparr>, Some (AttributeError ''rag''))"
    if "scheduled a = delay # rest" for delay rest
    using that by (simp add: run_scheduled_def finish_processing_def)
  have f: "a' = a" if "finish_processing inherited a w = (w', a', Some e')" for w' a' e'
    using that by (auto simp: finish_processing_def split: option.splits sum.splits prod.splits)
  from a b c d f show ?thesis
    by blast
qed

theorem rag_propagates_failures_witness:
  "rag (\<lambda>index_name body. Inl (ServiceError ''search down''))
       (\<lambda>model messages. Inr \<lparr>choices = []\<rparr>) ''Why?''
       \<lparr>console = [], es_calls = [], chat_calls = []\<rparr>
     = (\<lparr>console =
           [''--------------IDENTIFYING RELATED CONTENT USING ELASTIC SEARCH-------------------''],
         es_calls = [(default_index, search_query ''Why?'')], chat_calls = []\<rparr>,
        Inl (ServiceError ''search down''))
   \<and> snd (rag (\<lambda>index_name body. Inr \<lparr>hits = []\<rparr>)
       (\<lambda>model messages. Inl (ServiceError ''model down'')) ''Why?''
       \<lparr>console = [], es_calls = [], chat_calls = []\<rparr>)
     = Inl (ServiceError ''model down'')
   \<and> finish_processing Map.empty (on_ask_clicked (on_text_changed ''Why?'' initial_app))
       \<lparr>console = [], es_calls = [], chat_calls = []\<rparr>
     = (\<lparr>console = [], es_calls = [], chat_calls = []\<rparr>,
        \<lparr>input_text = ''Why?'', output_text = ''Processing...'', is_loading = True,
          scheduled = [2]\<rparr>,
        Some (AttributeError ''rag''))
   \<and> run_scheduled Map.empty (on_ask_clicked (on_text_changed ''Why?'' initial_app))
       \<lparr>console = [], es_calls = [], chat_calls = []\<rparr>
     = (\<lparr>console = [], es_calls = [], chat_calls = []\<rparr>,
        \<lparr>input_text = ''Why?'', output_text = ''Processing...'', is_loading = True,
          scheduled = []\<rparr>,
        Some (AttributeError ''rag''))"
proof -
  define es_down :: es_service where
    "es_down = (\<lambda>index_name body. Inl (ServiceError ''search down''))"
  define es_empty :: es_service where "es_empty = (\<lambda>index_name body. Inr \<lparr>hits = []\<rparr>)"
  define chat_none :: chat_service where "chat_none = (\<lambda>model messages. Inr \<lparr>choices = []\<rparr>)"
  define chat_down :: chat_service where
    "chat_down = (\<lambda>model messages. Inl (ServiceError ''model down''))"
  define w :: world where "w = \<lparr>console = [], es_calls = [], chat_calls = []\<rparr>"
  define a :: app where "a = on_ask_clicked (on_text_changed ''Why?'' initial_app)"
  define w' :: world where
    "w' = \<lparr>console =
           [''--------------IDENTIFYING RELATED CONTENT USING ELASTIC SEARCH-------------------''],
         es_calls = [(default_index, search_query ''Why?'')], chat_calls = []\<rparr>"
  define none :: "string \<rightharpoonup> rag_fn" where "none = Map.empty"
  have a_eq: "a = \<lparr>input_text = ''Why?'', output_text = ''Processing...'', is_loading = True,
          scheduled = [2]\<rparr>"
    by (simp add: a_def on_ask_clicked_def on_text_changed_def initial_app_def)
  have none_upd: "none(''rag'' := None) = none"
    by (simp add: none_def)
  have h1: "es_down default_index (search_query ''Why?'') = Inl (ServiceError ''search down'')"
    by (simp add: es_down_def)
  note t1 = rag_propagates_failures
    [of es_down "''Why?''" "ServiceError ''search down''" chat_none w none a]
  from t1 h1
  have r1: "rag es_down chat_none ''Why?'' w = (w', Inl (ServiceError ''search down''))"
    by (simp add: w_def w'_def)
  obtain p where p: "build_prompt ''Why?'' [] = Inr p"
    by (simp add: build_prompt_nil)
  have h2: "es_empty default_index (search_query ''Why?'') = Inr \<lparr>hits = []\<rparr>
      \<and> build_prompt ''Why?'' (map source (hits \<lparr>hits = []\<rparr>)) = Inr p
      \<and> chat_down ''phi3'' [\<lparr>role = ''user'', content = p\<rparr>] = Inl (ServiceError ''model down'')"
    using p by (simp add: es_empty_def chat_down_def)
  from rag_propagates_failures [of es_empty "''Why?''" "ServiceError ''model down''" chat_down w]
    h2
  have r2: "snd (rag es_empty chat_down ''Why?'' w) = Inl (ServiceError ''model down'')"
    by blast
  from t1 have r3: "finish_processing none a w = (w, a, Some (AttributeError ''rag''))"
    unfolding none_upd by blast
  have h4: "scheduled a = 2 # []"
    by (simp add: a_eq)
  from t1 h4
  have r4: "run_scheduled none a w = (w, a\<lparr>scheduled := []\<rparr>, Some (AttributeError ''rag''))"
    unfolding none_upd by blast
  from r3 a_eq have r3': "finish_processing none a w
      = (w, \<lparr>input_text = ''Why?'', output_text = ''Processing...'', is_loading = True,
          scheduled = [2]\<rparr>, Some (AttributeError ''rag''))"
    by simp
  from r4 a_eq have r4': "run_scheduled none a w
      = (w, \<lparr>input_text = ''Why?'', output_text = ''Processing...'', is_loading = True,
          scheduled = []\<rparr>, Some (AttributeError ''rag''))"
    by simp
  from r1 r2 r3' r4' show ?thesis
    unfolding es_down_def es_empty_def chat_none_def chat_down_def w_def w'_def a_def none_def
    by (intro conjI)
qed

text \<open>
  The branch of \<open>finish_processing\<close> that the module intends: were \<open>self.rag\<close> bound to a
  function that returns an answer, the answer would be shown after \<open>Output: \<close> and the
  busy flag cleared.
\<close>

lemma finish_processing_bound:
  "inherited ''rag'' = Some self_rag \<Longrightarrow> self_rag (input_text a) w = (w', Inr answer) \<Longrightarrow>
   finish_processing inherited a w =
     (w', a\<lparr>output_text := ''Output: '' @ answer, is_loading := False\<rparr>, None)"
  by (simp add: finish_processing_def)

text \<open>
  Claim C8. The submit handler sets \<open>is_loading\<close>. The claim says that the flag is
  cleared when the deferred callback completes, with the text updated to the answer. The
  code does not do that: the callback calls \<open>self.rag\<close>, which nothing binds, so with a
  base class that provides no attribute \<open>rag\<close> the callback raises AttributeError before
  its assignments, the orchestrator is not called (the world is unchanged), and the
  application stays busy with the placeholder text. The theorem evaluates a submit from
  the initial state followed by the clock running the callback.
\<close>

theorem busy_flag_never_cleared:
  "is_loading (on_ask_clicked a) = True
   \<and> run_scheduled (inherited(''rag'' := None))
        (on_ask_clicked (on_text_changed q initial_app)) w
      = (w, \<lparr>input_text = q, output_text = ''Processing...'', is_loading = True,
              scheduled = []\<rparr>, Some (AttributeError ''rag''))"
  by (simp add: run_scheduled_def finish_processing_def on_ask_clicked_def
      on_text_changed_def initial_app_def)

text \<open>
  Claim C10. The submit handler sets \<open>output_text\<close> to \<open>Processing...\<close>. The claim says
  that the deferred callback then sets it to \<open>Output: \<close> followed by the answer of the
  orchestrator. The code does not do that: \<open>finish_processing\<close> raises AttributeError
  on \<open>self.rag\<close> before the assignment, whatever the state and the world, and
  \<open>output_text\<close> keeps the placeholder.
\<close>

theorem output_text_stays_placeholder:
  "output_text (on_ask_clicked a) = ''Processing...''
   \<and> finish_processing (inherited(''rag'' := None)) (on_ask_clicked a) w
      = (w, on_ask_clicked a, Some (AttributeError ''rag''))
   \<and> output_text (fst (snd (finish_processing (inherited(''rag'' := None)) (on_ask_clicked a) w)))
      = ''Processing...''"
  by (simp add: finish_processing_def on_ask_clicked_def)

end
